theory Spec2Isabelle
  imports Main
begin

section \<open>JavaScript values and rendered elements\<close>

text \<open>
  The values that flow through the table component: the contents of a row's fields
  (\<^verbatim>\<open>unknown\<close> in the source), what a cell shows and what the component returns
  (\<^verbatim>\<open>React.ReactNode\<close>). An element carries its tag, its \<^verbatim>\<open>key\<close> (\<open>JNull\<close>
  when the JSX gives none), its attributes and its children; a child written as an
  array expression in JSX is one \<open>JArr\<close> child. Numbers are the integer-valued ones.
  \<open>JObject\<close> stands for a function or any other object that the component does not
  look into, such as the method \<^verbatim>\<open>toString\<close> that a plain object inherits; the
  string names it.
  The type parameter \<open>'w\<close> is the state of everything outside the component (what an
  impure caller-supplied function may read or change); it only occurs in the click
  handler that a data row carries.
\<close>

datatype 'w jsval =
    JUndefined
  | JNull
  | JBool bool
  | JNum int
  | JStr string
  | JArr "'w jsval list"
  | JObject string
  | JElem string "'w jsval" "'w attr list" "'w jsval list"
and 'w attr =
    ClassName string
  | Style "(string \<times> 'w jsval) list"
  | ColSpan nat
  | OnClick "'w \<Rightarrow> ('w jsval + unit) \<times> 'w"
  | Attr string "'w jsval"

text \<open>JavaScript truthiness, as \<^verbatim>\<open>if (x)\<close>, \<^verbatim>\<open>x && y\<close> and \<^verbatim>\<open>x || y\<close> decide it.\<close>

fun truthy :: "'w jsval \<Rightarrow> bool" where
  "truthy JUndefined = False"
| "truthy JNull = False"
| "truthy (JBool b) = b"
| "truthy (JNum n) = (n \<noteq> 0)"
| "truthy (JStr s) = (s \<noteq> [])"
| "truthy (JArr xs) = True"
| "truthy (JObject n) = True"
| "truthy (JElem t k as cs) = True"

text \<open>The operator \<^verbatim>\<open>a || b\<close> on values.\<close>

definition js_or :: "'w jsval \<Rightarrow> 'w jsval \<Rightarrow> 'w jsval" where
  "js_or a b = (if truthy a then a else b)"

section \<open>Caller-supplied functions\<close>

text \<open>
  A call of a function that the caller supplied (\<^verbatim>\<open>accessor\<close>, \<^verbatim>\<open>cell\<close>,
  \<^verbatim>\<open>getRowKey\<close>, \<^verbatim>\<open>onRowClick\<close>) starts in a state \<open>w\<close> of the outside world and
  either returns a value (\<open>Inr\<close>) or throws one (\<open>Inl\<close>), leaving a new state. The
  component's own code runs such calls in JavaScript's evaluation order and lets a thrown
  value propagate: it has no \<^verbatim>\<open>try\<close>.
\<close>

type_synonym ('w, 'a) eff = "'w \<Rightarrow> ('w jsval + 'a) \<times> 'w"

definition ret :: "'a \<Rightarrow> ('w, 'a) eff" where
  "ret x = (\<lambda>w. (Inr x, w))"

definition bindE :: "('w, 'a) eff \<Rightarrow> ('a \<Rightarrow> ('w, 'b) eff) \<Rightarrow> ('w, 'b) eff" where
  "bindE m f = (\<lambda>w. case m w of (Inl e, w') \<Rightarrow> (Inl e, w') | (Inr x, w') \<Rightarrow> f x w')"

text \<open>
  \<^verbatim>\<open>xs.map((x, i) => f(x, i))\<close> with a callback that may call caller-supplied
  functions: the elements are visited from index 0 upwards, and the first throw ends
  the loop.
\<close>

fun map_from :: "('a \<Rightarrow> nat \<Rightarrow> ('w, 'b) eff) \<Rightarrow> nat \<Rightarrow> 'a list \<Rightarrow> ('w, 'b list) eff" where
  "map_from f i [] = ret []"
| "map_from f i (x # xs) =
     bindE (f x i) (\<lambda>y. bindE (map_from f (Suc i) xs) (\<lambda>ys. ret (y # ys)))"

definition array_map :: "('a \<Rightarrow> nat \<Rightarrow> ('w, 'b) eff) \<Rightarrow> 'a list \<Rightarrow> ('w, 'b list) eff" where
  "array_map f xs = map_from f 0 xs"

section \<open>The data model\<close>

text \<open>The interfaces of the table component, \<^verbatim>\<open>src/unnamed/part_016\<close>, lines 7-92.\<close>

text \<open>
  A row is a \<^verbatim>\<open>Record<string, unknown>\<close>, an ordinary object. A property of an object is a
  data field holding a value, or an accessor property whose getter is a function of the
  caller: it runs when the property is read, may read or change the outside world and
  may throw. A row is given by its own properties followed by those of every object on
  its prototype chain, nearest first; a plain object literal has its own fields and then
  those of \<^verbatim>\<open>Object.prototype\<close>.
\<close>

datatype 'w property =
    Field "'w jsval"
  | Getter "'w \<Rightarrow> ('w jsval + 'w jsval) \<times> 'w"

type_synonym 'w row = "(string \<rightharpoonup> 'w property) list"

text \<open>
  The property read \<^verbatim>\<open>row[key]\<close> (line 143): the first object on the chain that
  has the property decides; a data field gives its value, a getter is called, and a name
  found nowhere on the chain gives \<^verbatim>\<open>undefined\<close>.
\<close>

fun row_get :: "'w row \<Rightarrow> string \<Rightarrow> ('w, 'w jsval) eff" where
  "row_get [] k = ret JUndefined"
| "row_get (ps # chain) k =
     (case ps k of
        None \<Rightarrow> row_get chain k
      | Some (Field v) \<Rightarrow> ret v
      | Some (Getter g) \<Rightarrow> g)"

text \<open>
  \<^verbatim>\<open>accessor?: keyof T | ((row: T) => unknown)\<close>: a field name (a string) or a
  function of the row; an absent accessor (\<^verbatim>\<open>undefined\<close>) is \<open>None\<close> in the column.
\<close>

datatype 'w accessor =
    AccKey string
  | AccFn "'w row \<Rightarrow> ('w, 'w jsval) eff"

text \<open>The object \<^verbatim>\<open>{ value, row, index }\<close> that a cell renderer receives.\<close>

record 'w cell_props =
  cp_value :: "'w jsval"
  cp_row :: "'w row"
  cp_index :: nat

datatype align = AlignLeft | AlignCenter | AlignRight

record 'w column =
  id_col :: string
  header :: "'w jsval"
  accessor :: "'w accessor option"
  cell :: "('w cell_props \<Rightarrow> ('w, 'w jsval) eff) option"
  width :: "'w jsval"
  align :: "align option"
  sortable :: "bool option"

text \<open>
  The props after destructuring (lines 125-137), defaults applied by the caller of the
  model: \<open>className\<close> is \<open>None\<close> when absent, \<open>emptyState\<close> is \<open>JUndefined\<close> when
  absent, \<open>rest\<close> are the remaining attributes spread onto the outer \<^verbatim>\<open>div\<close>.
\<close>

record 'w DataTableProps =
  className :: "string option"
  columns :: "'w column list"
  data :: "'w row list"
  loading :: bool
  emptyState :: "'w jsval"
  bordered :: bool
  striped :: bool
  hoverable :: bool
  getRowKey :: "('w row \<Rightarrow> nat \<Rightarrow> ('w, 'w jsval) eff) option"
  onRowClick :: "('w row \<Rightarrow> nat \<Rightarrow> ('w, unit) eff) option"
  rest :: "'w attr list"

section \<open>Class names\<close>

text \<open>The helper \<^verbatim>\<open>cn\<close> of \<^verbatim>\<open>src/src/lib/utils.ts\<close>, lines 15-17.\<close>

text \<open>
  \<^verbatim>\<open>cn(...inputs)\<close> is \<^verbatim>\<open>twMerge(clsx(inputs))\<close>. The inputs that the table passes
  are strings and the falsy results of \<^verbatim>\<open>cond && 'classes'\<close> (\<open>None\<close> here);
  \<^verbatim>\<open>clsx\<close> joins the non-empty strings with single spaces. \<^verbatim>\<open>twMerge\<close> belongs to
  the library tailwind-merge and is a parameter \<open>tw\<close> of the model.
\<close>

fun join_sp :: "string list \<Rightarrow> string" where
  "join_sp [] = []"
| "join_sp [s] = s"
| "join_sp (s # t # ts) = s @ '' '' @ join_sp (t # ts)"

definition clsx :: "string option list \<Rightarrow> string" where
  "clsx inputs = join_sp (filter (\<lambda>s. s \<noteq> []) (List.map_filter (\<lambda>x. x) inputs))"

definition cn :: "(string \<Rightarrow> string) \<Rightarrow> string option list \<Rightarrow> string" where
  "cn tw inputs = tw (clsx inputs)"

text \<open>\<^verbatim>\<open>cond && 'classes'\<close> as an input of \<^verbatim>\<open>cn\<close>.\<close>

definition and_class :: "bool \<Rightarrow> string \<Rightarrow> string option" where
  "and_class c s = (if c then Some s else None)"

section \<open>The component\<close>

text \<open>The code of \<^verbatim>\<open>src/unnamed/part_016\<close>, lines 97-233, function by function.\<close>

text \<open>
  A function component used in JSX is represented by the element it renders, carrying
  the \<^verbatim>\<open>key\<close> given where it is used.
\<close>

fun keyed :: "'w jsval \<Rightarrow> 'w jsval \<Rightarrow> 'w jsval" where
  "keyed k (JElem t k0 as cs) = JElem t k as cs"
| "keyed k v = v"

text \<open>\<^verbatim>\<open>SkeletonRow\<close> (lines 97-105): one placeholder cell for each of \<open>n\<close> columns.\<close>

definition SkeletonRow :: "nat \<Rightarrow> 'w jsval" where
  "SkeletonRow n =
     JElem ''tr'' JNull []
       [JArr (map (\<lambda>i. JElem ''td'' (JNum (int i)) [ClassName ''p-4'']
                     [JElem ''div'' JNull
                        [ClassName ''h-4 bg-neutral-200 rounded animate-pulse''] []])
                  [0..<n])]"

text \<open>
  \<^verbatim>\<open>if (column.accessor)\<close> (line 139): \<^verbatim>\<open>undefined\<close> is falsy, a function is
  truthy, and a key is as truthy as the string it is.
\<close>

fun truthy_accessor :: "'w accessor option \<Rightarrow> bool" where
  "truthy_accessor None = False"
| "truthy_accessor (Some (AccFn f)) = True"
| "truthy_accessor (Some (AccKey k)) = truthy (JStr k :: 'w jsval)"

text \<open>
  \<^verbatim>\<open>getCellValue\<close> (lines 138-146). Inside the truthy branch the accessor is a
  function or a key; the case \<open>None\<close> there is never reached.
\<close>

definition getCellValue :: "'w row \<Rightarrow> 'w column \<Rightarrow> ('w, 'w jsval) eff" where
  "getCellValue row column =
     (if truthy_accessor (accessor column) then
        (case accessor column of
           Some (AccFn f) \<Rightarrow> f row
         | Some (AccKey k) \<Rightarrow> row_get row k
         | None \<Rightarrow> ret JNull)
      else ret JNull)"

text \<open>\<^verbatim>\<open>renderCell\<close> (lines 148-156).\<close>

definition renderCell :: "'w row \<Rightarrow> 'w column \<Rightarrow> nat \<Rightarrow> ('w, 'w jsval) eff" where
  "renderCell row column index =
     bindE (getCellValue row column) (\<lambda>v.
       case cell column of
         Some c \<Rightarrow> c \<lparr>cp_value = v, cp_row = row, cp_index = index\<rparr>
       | None \<Rightarrow> ret v)"

text \<open>The header row (lines 163-180); it calls no caller-supplied function.\<close>

definition headerCell :: "(string \<Rightarrow> string) \<Rightarrow> 'w DataTableProps \<Rightarrow> 'w column \<Rightarrow> 'w jsval" where
  "headerCell tw props column =
     JElem ''th'' (JStr (id_col column))
       [ClassName (cn tw
          [Some ''h-12 px-4 text-left align-middle font-medium text-neutral-500'',
           and_class (align column = Some AlignCenter) ''text-center'',
           and_class (align column = Some AlignRight) ''text-right'',
           and_class (bordered props) ''border-r last:border-r-0'']),
        Style [(''width'', width column)]]
       [header column]"

definition tableHead :: "(string \<Rightarrow> string) \<Rightarrow> 'w DataTableProps \<Rightarrow> 'w jsval" where
  "tableHead tw props =
     JElem ''thead'' JNull [ClassName ''bg-neutral-50 [&_tr]:border-b'']
       [JElem ''tr'' JNull [] [JArr (map (headerCell tw props) (columns props))]]"

text \<open>The default of the empty state (line 192).\<close>

definition defaultEmpty :: "'w jsval" where
  "defaultEmpty =
     JElem ''div'' JNull [ClassName ''py-12 text-neutral-500''] [JStr ''No data available'']"

text \<open>The empty-state row (lines 189-195).\<close>

definition emptyRow :: "'w DataTableProps \<Rightarrow> 'w jsval" where
  "emptyRow props =
     JElem ''tr'' JNull []
       [JElem ''td'' JNull [ColSpan (length (columns props)), ClassName ''h-24 text-center'']
          [js_or (emptyState props) defaultEmpty]]"

text \<open>One cell of a data row (lines 213-223).\<close>

definition dataCell ::
  "(string \<Rightarrow> string) \<Rightarrow> 'w DataTableProps \<Rightarrow> 'w row \<Rightarrow> nat \<Rightarrow> 'w column \<Rightarrow> ('w, 'w jsval) eff" where
  "dataCell tw props row index column =
     bindE (renderCell row column index) (\<lambda>content.
       ret (JElem ''td'' (JStr (id_col column))
              [ClassName (cn tw
                 [Some ''p-4 align-middle'',
                  and_class (align column = Some AlignCenter) ''text-center'',
                  and_class (align column = Some AlignRight) ''text-right'',
                  and_class (bordered props) ''border-r last:border-r-0''])]
              [content]))"

text \<open>
  The click handler of a data row (line 210), \<^verbatim>\<open>() => onRowClick?.(row, index)\<close>: it
  is built while rendering and runs only when the row is clicked.
\<close>

definition rowClick :: "'w DataTableProps \<Rightarrow> 'w row \<Rightarrow> nat \<Rightarrow> ('w, unit) eff" where
  "rowClick props row index =
     (case onRowClick props of None \<Rightarrow> ret () | Some h \<Rightarrow> h row index)"

text \<open>The row key (line 199).\<close>

definition rowKey :: "'w DataTableProps \<Rightarrow> 'w row \<Rightarrow> nat \<Rightarrow> ('w, 'w jsval) eff" where
  "rowKey props row index =
     (case getRowKey props of Some g \<Rightarrow> g row index | None \<Rightarrow> ret (JNum (int index)))"

text \<open>One data row: the callback of \<^verbatim>\<open>data.map\<close> (lines 198-227).\<close>

definition dataRow ::
  "(string \<Rightarrow> string) \<Rightarrow> 'w DataTableProps \<Rightarrow> 'w row \<Rightarrow> nat \<Rightarrow> ('w, 'w jsval) eff" where
  "dataRow tw props row index =
     bindE (rowKey props row index) (\<lambda>key.
     bindE (array_map (\<lambda>column i. dataCell tw props row index column) (columns props)) (\<lambda>cells.
       ret (JElem ''tr'' key
              [ClassName (cn tw
                 [Some ''border-b transition-colors'',
                  and_class (striped props \<and> index mod 2 = 1) ''bg-neutral-50'',
                  and_class (hoverable props) ''hover:bg-neutral-50'',
                  and_class (onRowClick props \<noteq> None) ''cursor-pointer'']),
               OnClick (rowClick props row index)]
              [JArr cells])))"

text \<open>\<^verbatim>\<open>isEmpty\<close> (line 158).\<close>

definition isEmpty :: "'w DataTableProps \<Rightarrow> bool" where
  "isEmpty props = (\<not> loading props \<and> length (data props) = 0)"

text \<open>The child expression of \<^verbatim>\<open>tbody\<close> (lines 182-228).\<close>

definition tableBody :: "(string \<Rightarrow> string) \<Rightarrow> 'w DataTableProps \<Rightarrow> ('w, 'w jsval) eff" where
  "tableBody tw props =
     (if loading props then
        ret (JArr (map (\<lambda>i. keyed (JNum (int i)) (SkeletonRow (length (columns props))))
                       [0..<5]))
      else if isEmpty props then ret (emptyRow props)
      else bindE (array_map (dataRow tw props) (data props)) (\<lambda>rows. ret (JArr rows)))"

text \<open>\<^verbatim>\<open>DataTable\<close> (lines 125-233).\<close>

definition DataTable :: "(string \<Rightarrow> string) \<Rightarrow> 'w DataTableProps \<Rightarrow> ('w, 'w jsval) eff" where
  "DataTable tw props =
     bindE (tableBody tw props) (\<lambda>body.
       ret (JElem ''div'' JNull
              (ClassName (cn tw [Some ''relative w-full overflow-auto'', className props])
                 # rest props)
              [JElem ''table'' JNull [ClassName ''w-full caption-bottom text-sm'']
                 [tableHead tw props,
                  JElem ''tbody'' JNull [ClassName ''[&_tr:last-child]:border-0''] [body]]]))"

section \<open>Notions used to state the properties\<close>

text \<open>
  The value that a cell renderer is to receive, in the words of the specification: the
  accessor function applied to the row, or the field-key lookup on the row, or
  \<^verbatim>\<open>null\<close> when the column has no accessor.
\<close>

definition accessorValue_spec :: "'w row \<Rightarrow> 'w column \<Rightarrow> ('w, 'w jsval) eff" where
  "accessorValue_spec row column =
     (case accessor column of
        Some (AccFn f) \<Rightarrow> f row
      | Some (AccKey k) \<Rightarrow> row_get row k
      | None \<Rightarrow> ret JNull)"

text \<open>A call returns normally from every state of the world.\<close>

definition returns :: "('w, 'a) eff \<Rightarrow> bool" where
  "returns m = (\<forall>w. \<exists>x w'. m w = (Inr x, w'))"

text \<open>
  The functions of the caller that resolving a column on a row can call: the accessor
  function, the getter behind the key that is read (the read of line 143 happens when
  the guard of line 139 lets it), and the cell renderer. They return normally.
\<close>

definition column_returns :: "'w row \<Rightarrow> 'w column \<Rightarrow> bool" where
  "column_returns row column =
     ((\<forall>f. accessor column = Some (AccFn f) \<longrightarrow> returns (f row)) \<and>
      (\<forall>k. accessor column = Some (AccKey k) \<and> k \<noteq> [] \<longrightarrow> returns (row_get row k)) \<and>
      (\<forall>c v i. cell column = Some c \<longrightarrow>
         returns (c \<lparr>cp_value = v, cp_row = row, cp_index = i\<rparr>)))"

text \<open>
  The functions of the caller that rendering the table can call, on the rows of the data:
  those of every column, and \<^verbatim>\<open>getRowKey\<close>.
\<close>

definition callbacks_return :: "'w DataTableProps \<Rightarrow> bool" where
  "callbacks_return props =
     (\<forall>row \<in> set (data props).
        (\<forall>column \<in> set (columns props). column_returns row column) \<and>
        (\<forall>g i. getRowKey props = Some g \<longrightarrow> returns (g row i)))"

text \<open>
  A call is pure: its outcome (the value returned or thrown) is the same in every state
  of the world, and it leaves the state as it was.
\<close>

definition pure_eff :: "('w, 'a) eff \<Rightarrow> bool" where
  "pure_eff m = (\<exists>r. \<forall>w. m w = (r, w))"

definition column_pure :: "'w row \<Rightarrow> 'w column \<Rightarrow> bool" where
  "column_pure row column =
     ((\<forall>f. accessor column = Some (AccFn f) \<longrightarrow> pure_eff (f row)) \<and>
      (\<forall>k. accessor column = Some (AccKey k) \<and> k \<noteq> [] \<longrightarrow> pure_eff (row_get row k)) \<and>
      (\<forall>c v i. cell column = Some c \<longrightarrow>
         pure_eff (c \<lparr>cp_value = v, cp_row = row, cp_index = i\<rparr>)))"

definition callbacks_pure :: "'w DataTableProps \<Rightarrow> bool" where
  "callbacks_pure props =
     (\<forall>row \<in> set (data props).
        (\<forall>column \<in> set (columns props). column_pure row column) \<and>
        (\<forall>g i. getRowKey props = Some g \<longrightarrow> pure_eff (g row i)))"

section \<open>Example inputs\<close>

text \<open>
  The state of the world in the examples is a counter. The rows and columns are those of
  the specification's scenario, written as object literals: own data fields, then the
  methods that every object inherits from \<^verbatim>\<open>Object.prototype\<close>. The first row has a
  field with the empty name as well.
\<close>

definition Object_prototype :: "string \<rightharpoonup> nat property" where
  "Object_prototype =
     [''constructor'' \<mapsto> Field (JObject ''Object''),
      ''hasOwnProperty'' \<mapsto> Field (JObject ''Object.prototype.hasOwnProperty''),
      ''isPrototypeOf'' \<mapsto> Field (JObject ''Object.prototype.isPrototypeOf''),
      ''propertyIsEnumerable'' \<mapsto> Field (JObject ''Object.prototype.propertyIsEnumerable''),
      ''toLocaleString'' \<mapsto> Field (JObject ''Object.prototype.toLocaleString''),
      ''toString'' \<mapsto> Field (JObject ''Object.prototype.toString''),
      ''valueOf'' \<mapsto> Field (JObject ''Object.prototype.valueOf'')]"

definition ex_row :: "nat row" where
  "ex_row =
     [[''name'' \<mapsto> Field (JStr ''Alice''), ''status'' \<mapsto> Field (JStr ''active''),
       [] \<mapsto> Field (JStr ''x'')],
      Object_prototype]"

definition ex_row2 :: "nat row" where
  "ex_row2 =
     [[''name'' \<mapsto> Field (JStr ''Bob''), ''status'' \<mapsto> Field (JStr ''idle'')],
      Object_prototype]"


text \<open>A cell renderer, \<^verbatim>\<open>({ value }) => <span>{value}</span>\<close>.\<close>

definition ex_span :: "nat cell_props \<Rightarrow> (nat, nat jsval) eff" where
  "ex_span p = ret (JElem ''span'' JNull [] [cp_value p])"

definition ex_col ::
  "string \<Rightarrow> nat accessor option \<Rightarrow> (nat cell_props \<Rightarrow> (nat, nat jsval) eff) option
     \<Rightarrow> nat column" where
  "ex_col i a c = \<lparr>id_col = i, header = JStr i, accessor = a, cell = c,
                   width = JUndefined, align = None, sortable = None\<rparr>"

definition ex_props :: "nat DataTableProps" where
  "ex_props = \<lparr>className = None,
      columns = [ex_col ''name'' (Some (AccKey ''name'')) None,
                 ex_col ''status'' (Some (AccKey ''status'')) (Some ex_span)],
      data = [ex_row, ex_row2], loading = False, emptyState = JUndefined,
      bordered = False, striped = False, hoverable = True,
      getRowKey = None, onRowClick = None, rest = []\<rparr>"



text \<open>A key function, \<^verbatim>\<open>(row) => row.name\<close>.\<close>

definition ex_name_key :: "nat row \<Rightarrow> nat \<Rightarrow> (nat, nat jsval) eff" where
  "ex_name_key row i = row_get row ''name''"

text \<open>An impure key function, \<^verbatim>\<open>() => counter++\<close>.\<close>

definition ex_counter_key :: "nat row \<Rightarrow> nat \<Rightarrow> (nat, nat jsval) eff" where
  "ex_counter_key row i = (\<lambda>w. (Inr (JNum (int w)), Suc w))"

definition ex_key_props :: "nat DataTableProps" where
  "ex_key_props = \<lparr>className = None,
      columns = [ex_col ''name'' (Some (AccKey ''name'')) None],
      data = [ex_row], loading = False, emptyState = JUndefined,
      bordered = False, striped = False, hoverable = True,
      getRowKey = Some ex_counter_key, onRowClick = None, rest = []\<rparr>"

text \<open>An accessor function, \<^verbatim>\<open>(row) => row.name\<close>.\<close>

definition ex_name_fn :: "nat row \<Rightarrow> (nat, nat jsval) eff" where
  "ex_name_fn row = row_get row ''name''"

section \<open>Running calls in sequence\<close>

lemma bindE_ret: "bindE (ret x) f = f x"
  by (simp add: bindE_def ret_def)

lemma bindE_ret_right: "bindE m ret = m"
  by (auto simp: bindE_def ret_def fun_eq_iff split: prod.splits sum.splits)

lemma bindE_apply:
  "bindE m f w = (case m w of (Inl e, w') \<Rightarrow> (Inl e, w') | (Inr x, w') \<Rightarrow> f x w')"
  by (simp add: bindE_def)

lemma ret_apply: "ret x w = (Inr x, w)"
  by (simp add: ret_def)

lemma bindE_Inr:
  "bindE m f w = (Inr y, w') \<longleftrightarrow> (\<exists>x w1. m w = (Inr x, w1) \<and> f x w1 = (Inr y, w'))"
  by (auto simp: bindE_def split: prod.splits sum.splits)


lemma ret_eq: "ret x w = (r, w') \<longleftrightarrow> r = Inr x \<and> w' = w"
  by (auto simp: ret_def)

lemma returns_ret: "returns (ret x)"
  by (simp add: returns_def ret_def)

lemma returns_bindE:
  assumes "returns m" and "\<And>x. returns (f x)"
  shows "returns (bindE m f)"
  unfolding returns_def
proof
  fix w
  from assms(1) obtain x w1 where m: "m w = (Inr x, w1)"
    unfolding returns_def by blast
  from assms(2) [of x] obtain y w2 where "f x w1 = (Inr y, w2)"
    unfolding returns_def by blast
  with m show "\<exists>y w'. bindE m f w = (Inr y, w')"
    by (simp add: bindE_def)
qed

lemma returns_map_from:
  assumes "\<And>x i. x \<in> set xs \<Longrightarrow> returns (f x i)"
  shows "returns (map_from f i xs)"
  using assms
proof (induction xs arbitrary: i)
  case Nil
  show ?case by (simp add: returns_ret)
next
  case (Cons x xs)
  have "returns (map_from f (Suc i) xs)"
    by (rule Cons.IH) (simp add: Cons.prems)
  then show ?case
    by (simp add: returns_bindE returns_ret Cons.prems)
qed

lemma pure_ret: "pure_eff (ret x)"
  by (auto simp: pure_eff_def ret_def)

lemma pure_bindE:
  assumes "pure_eff m" and "\<And>x. pure_eff (f x)"
  shows "pure_eff (bindE m f)"
proof -
  from assms(1) obtain r where m: "\<And>w. m w = (r, w)"
    unfolding pure_eff_def by blast
  show ?thesis
  proof (cases r)
    case (Inl e)
    with m have "\<forall>w. bindE m f w = (Inl e, w)"
      by (simp add: bindE_def)
    then show ?thesis unfolding pure_eff_def by blast
  next
    case (Inr x)
    from assms(2) [of x] obtain r' where "\<And>w. f x w = (r', w)"
      unfolding pure_eff_def by blast
    with m Inr have "\<forall>w. bindE m f w = (r', w)"
      by (simp add: bindE_def)
    then show ?thesis unfolding pure_eff_def by blast
  qed
qed

lemma pure_map_from:
  assumes "\<And>x i. x \<in> set xs \<Longrightarrow> pure_eff (f x i)"
  shows "pure_eff (map_from f i xs)"
  using assms
proof (induction xs arbitrary: i)
  case Nil
  show ?case by (simp add: pure_ret)
next
  case (Cons x xs)
  have "pure_eff (map_from f (Suc i) xs)"
    by (rule Cons.IH) (simp add: Cons.prems)
  then show ?case
    by (simp add: pure_bindE pure_ret Cons.prems)
qed

lemma pure_effD:
  assumes "pure_eff m"
  shows "fst (m w1) = fst (m w2)" and "snd (m w1) = w1"
  using assms by (auto simp: pure_eff_def)

text \<open>
  A \<^verbatim>\<open>map\<close> that returns has visited every element, in order: there is a sequence of
  states, one before each call and one after the last, that the calls step through.
\<close>

lemma map_from_chain:
  assumes "map_from f i xs w = (Inr ys, w')"
  shows "\<exists>ws. length ws = Suc (length xs) \<and> ws ! 0 = w \<and> ws ! length xs = w' \<and>
              length ys = length xs \<and>
              (\<forall>j<length xs. f (xs ! j) (i + j) (ws ! j) = (Inr (ys ! j), ws ! Suc j))"
  using assms
proof (induction xs arbitrary: i w ys)
  case Nil
  then have "ys = [] \<and> w' = w" by (auto simp: ret_def)
  then show ?case by (intro exI [of _ "[w]"]) simp
next
  case (Cons x xs)
  from Cons.prems obtain y w1 ys' where
    fx: "f x i w = (Inr y, w1)" and
    rec: "map_from f (Suc i) xs w1 = (Inr ys', w')" and
    ys: "ys = y # ys'"
    by (auto simp: bindE_Inr ret_eq)
  from Cons.IH [OF rec] obtain ws where
    ws: "length ws = Suc (length xs)" "ws ! 0 = w1" "ws ! length xs = w'"
        "length ys' = length xs"
        "\<forall>j<length xs. f (xs ! j) (Suc i + j) (ws ! j) = (Inr (ys' ! j), ws ! Suc j)"
    by blast
  have "\<forall>j<length (x # xs). f ((x # xs) ! j) (i + j) ((w # ws) ! j)
          = (Inr (ys ! j), (w # ws) ! Suc j)"
  proof (intro allI impI)
    fix j assume j: "j < length (x # xs)"
    show "f ((x # xs) ! j) (i + j) ((w # ws) ! j) = (Inr (ys ! j), (w # ws) ! Suc j)"
    proof (cases j)
      case 0
      then show ?thesis using fx ys ws(2) by simp
    next
      case (Suc j')
      then have "j' < length xs" using j by simp
      with ws(5) Suc ys show ?thesis by simp
    qed
  qed
  with ws ys show ?case
    by (intro exI [of _ "w # ws"]) simp
qed

section \<open>Reading a field of a row\<close>



text \<open>The fields of the example rows.\<close>

lemma ex_row_fields:
  "row_get ex_row ''name'' = ret (JStr ''Alice'')"
  "row_get ex_row ''status'' = ret (JStr ''active'')"
  "row_get ex_row [] = ret (JStr ''x'')"
  "row_get ex_row2 ''name'' = ret (JStr ''Bob'')"
  "row_get ex_row2 ''status'' = ret (JStr ''idle'')"
  by (simp_all add: ex_row_def ex_row2_def)

section \<open>Cell resolution\<close>

text \<open>
  Claim C1, as stated, at a column whose accessor is the empty field name and whose
  \<^verbatim>\<open>cell\<close> renderer is defined, on a row that has a field of that name: the code
  hands the renderer \<^verbatim>\<open>null\<close>, the claim's value is the field-key lookup
  \<^verbatim>\<open>row['']\<close>, which is \<^verbatim>\<open>'x'\<close>, and the rendered contents differ.
\<close>

theorem renderCell_cell_falsy_key_counterexample:
  "cell (ex_col ''c'' (Some (AccKey [])) (Some ex_span)) = Some ex_span \<and>
   renderCell ex_row (ex_col ''c'' (Some (AccKey [])) (Some ex_span)) 0 0
     = (Inr (JElem ''span'' JNull [] [JNull]), 0) \<and>
   accessorValue_spec ex_row (ex_col ''c'' (Some (AccKey [])) (Some ex_span)) 0
     = (Inr (JStr ''x''), 0) \<and>
   ex_span \<lparr>cp_value = JStr ''x'', cp_row = ex_row, cp_index = 0\<rparr> 0
     = (Inr (JElem ''span'' JNull [] [JStr ''x'']), 0) \<and>
   renderCell ex_row (ex_col ''c'' (Some (AccKey [])) (Some ex_span)) 0 0
     \<noteq> ex_span \<lparr>cp_value = JStr ''x'', cp_row = ex_row, cp_index = 0\<rparr> 0"
  by (simp add: renderCell_def getCellValue_def accessorValue_spec_def ex_col_def ex_span_def
      ex_row_fields bindE_apply ret_apply)

text \<open>
  Claim C1, amended: for every row, row index and column whose \<^verbatim>\<open>cell\<close> renderer is
  defined, the rendered cell content is \<^verbatim>\<open>cell({value, row, index})\<close>, where
  \<^verbatim>\<open>value\<close> is the accessor function applied to the row, or the field-key lookup on
  the row when the key is a non-empty name, or \<^verbatim>\<open>null\<close> when the column has no
  accessor or its key is the empty name. The value is computed first; if that throws,
  the renderer is not called.
\<close>

theorem renderCell_cell_receives_value:
  assumes "cell column = Some c"
  shows "renderCell row column index w =
     bindE (case accessor column of
              Some (AccFn f) \<Rightarrow> f row
            | Some (AccKey k) \<Rightarrow> if k = [] then ret JNull else row_get row k
            | None \<Rightarrow> ret JNull)
           (\<lambda>v. c \<lparr>cp_value = v, cp_row = row, cp_index = index\<rparr>) w"
  using assms by (simp add: renderCell_def getCellValue_def split: option.splits accessor.splits)

theorem renderCell_cell_receives_value_witness:
  "cell (ex_col ''status'' (Some (AccKey ''status'')) (Some ex_span)) = Some ex_span \<and>
   renderCell ex_row (ex_col ''status'' (Some (AccKey ''status'')) (Some ex_span)) 0 0
     = ex_span \<lparr>cp_value = JStr ''active'', cp_row = ex_row, cp_index = 0\<rparr> 0 \<and>
   renderCell ex_row (ex_col ''status'' (Some (AccKey ''status'')) (Some ex_span)) 0 0
     = (Inr (JElem ''span'' JNull [] [JStr ''active'']), 0)"
proof -
  have h: "cell (ex_col ''status'' (Some (AccKey ''status'')) (Some ex_span)) = Some ex_span"
    by (simp add: ex_col_def)
  have a: "accessor (ex_col ''status'' (Some (AccKey ''status'')) (Some ex_span))
             = Some (AccKey ''status'')"
    by (simp add: ex_col_def)
  from renderCell_cell_receives_value [OF h, of ex_row 0 0] h
  show ?thesis
    by (simp add: a ex_row_fields bindE_apply ret_apply ex_span_def)
qed

text \<open>
  Claim C2, as stated, at a column whose only accessor is the empty field name, on a row
  that has a field of that name with the value \<^verbatim>\<open>'x'\<close>: the displayed value is
  \<^verbatim>\<open>null\<close>, not \<^verbatim>\<open>row['']\<close>.
\<close>

theorem renderCell_field_key_counterexample:
  "accessor (ex_col ''c'' (Some (AccKey [])) None) = Some (AccKey []) \<and>
   cell (ex_col ''c'' (Some (AccKey [])) None) = None \<and>
   row_get ex_row [] 0 = (Inr (JStr ''x''), 0) \<and>
   renderCell ex_row (ex_col ''c'' (Some (AccKey [])) None) 0 0 = (Inr JNull, 0) \<and>
   renderCell ex_row (ex_col ''c'' (Some (AccKey [])) None) 0 0 \<noteq> row_get ex_row [] 0"
  by (simp add: renderCell_def getCellValue_def ex_col_def ex_row_fields
      bindE_apply ret_apply)

text \<open>
  Claim C2, amended: for every column whose accessor is a non-empty field-name key and
  that has no \<^verbatim>\<open>cell\<close> renderer, and for every row, the resolved value and the
  displayed value are \<^verbatim>\<open>row[key]\<close>: the outcome of resolving the cell is the
  outcome of reading that key on the row, whatever the row has under it.
\<close>

theorem renderCell_field_key:
  assumes "accessor column = Some (AccKey k)" and "k \<noteq> []" and "cell column = None"
  shows "getCellValue row column w = row_get row k w \<and>
         renderCell row column index w = row_get row k w"
  using assms by (simp add: renderCell_def getCellValue_def bindE_ret_right)

theorem renderCell_field_key_witness:
  "accessor (ex_col ''name'' (Some (AccKey ''name'')) None) = Some (AccKey ''name'') \<and>
   ''name'' \<noteq> [] \<and>
   cell (ex_col ''name'' (Some (AccKey ''name'')) None) = None \<and>
   row_get ex_row ''name'' 0 = (Inr (JStr ''Alice''), 0) \<and>
   renderCell ex_row (ex_col ''name'' (Some (AccKey ''name'')) None) 0 0
     = (Inr (JStr ''Alice''), 0)"
proof -
  have h1: "accessor (ex_col ''name'' (Some (AccKey ''name'')) None) = Some (AccKey ''name'')"
    by (simp add: ex_col_def)
  have h2: "''name'' \<noteq> []" by simp
  have h3: "cell (ex_col ''name'' (Some (AccKey ''name'')) None) = None"
    by (simp add: ex_col_def)
  have v: "row_get ex_row ''name'' 0 = (Inr (JStr ''Alice''), 0)"
    by (simp add: ex_row_fields ret_apply)
  from renderCell_field_key [OF h1 h2 h3, of ex_row 0 0] h1 h3 v
  show ?thesis by simp
qed

text \<open>
  Claim C6: for every column whose accessor is a function and that has no \<^verbatim>\<open>cell\<close>
  renderer, and for every row, the displayed content is \<^verbatim>\<open>accessor(row)\<close>: the
  outcome of rendering the cell is the outcome of that call, used directly.
\<close>

theorem renderCell_function_accessor:
  assumes "accessor column = Some (AccFn f)" and "cell column = None"
  shows "getCellValue row column w = f row w \<and> renderCell row column index w = f row w"
  using assms by (simp add: renderCell_def getCellValue_def bindE_ret_right)

theorem renderCell_function_accessor_witness:
  "accessor (ex_col ''c'' (Some (AccFn ex_name_fn)) None) = Some (AccFn ex_name_fn) \<and>
   cell (ex_col ''c'' (Some (AccFn ex_name_fn)) None) = None \<and>
   renderCell ex_row (ex_col ''c'' (Some (AccFn ex_name_fn)) None) 0 0
     = (Inr (JStr ''Alice''), 0)"
proof -
  have h1: "accessor (ex_col ''c'' (Some (AccFn ex_name_fn)) None) = Some (AccFn ex_name_fn)"
    by (simp add: ex_col_def)
  have h2: "cell (ex_col ''c'' (Some (AccFn ex_name_fn)) None) = None"
    by (simp add: ex_col_def)
  have v: "ex_name_fn ex_row 0 = (Inr (JStr ''Alice''), 0)"
    by (simp add: ex_name_fn_def ex_row_fields ret_apply)
  from renderCell_function_accessor [OF h1 h2, of ex_row 0 0] h1 h2
  show ?thesis by (simp add: v)
qed

text \<open>
  Claim C9: the presence of an accessor is decided by truthiness, so for every row a
  column whose accessor is a falsy field key (the empty string) is treated exactly like
  the same column without accessor: the resolved value is \<^verbatim>\<open>null\<close>, and a cell
  renderer receives \<^verbatim>\<open>value = null\<close>, not \<^verbatim>\<open>row['']\<close>.
\<close>

theorem falsy_key_is_no_accessor:
  assumes "accessor column = Some (AccKey k)" and "\<not> truthy (JStr k :: 'w jsval)"
  shows "getCellValue row (column :: 'w column) w = (Inr JNull, w) \<and>
         getCellValue row column w = getCellValue row (column\<lparr>accessor := None\<rparr>) w \<and>
         renderCell row column index w = renderCell row (column\<lparr>accessor := None\<rparr>) index w \<and>
         (cell column = None \<longrightarrow> renderCell row column index w = (Inr JNull, w)) \<and>
         (\<forall>c. cell column = Some c \<longrightarrow>
            renderCell row column index w =
              c \<lparr>cp_value = JNull, cp_row = row, cp_index = index\<rparr> w)"
  using assms by (simp add: renderCell_def getCellValue_def bindE_apply ret_apply)

theorem falsy_key_is_no_accessor_witness:
  "accessor (ex_col ''c'' (Some (AccKey [])) None) = Some (AccKey []) \<and>
   \<not> truthy (JStr [] :: nat jsval) \<and>
   row_get ex_row [] 0 = (Inr (JStr ''x''), 0) \<and>
   renderCell ex_row (ex_col ''c'' (Some (AccKey [])) None) 0 0 = (Inr JNull, 0) \<and>
   renderCell ex_row (ex_col ''c'' (Some (AccKey [])) (Some ex_span)) 0 0
     = (Inr (JElem ''span'' JNull [] [JNull]), 0)"
proof -
  have h1: "accessor (ex_col ''c'' (Some (AccKey [])) None) = Some (AccKey [])"
    by (simp add: ex_col_def)
  have h1': "accessor (ex_col ''c'' (Some (AccKey [])) (Some ex_span)) = Some (AccKey [])"
    by (simp add: ex_col_def)
  have h2: "\<not> truthy (JStr [] :: nat jsval)" by simp
  have c1: "cell (ex_col ''c'' (Some (AccKey [])) None) = None"
    by (simp add: ex_col_def)
  have c2: "cell (ex_col ''c'' (Some (AccKey [])) (Some ex_span)) = Some ex_span"
    by (simp add: ex_col_def)
  have v: "row_get ex_row [] 0 = (Inr (JStr ''x''), 0)"
    by (simp add: ex_row_fields ret_apply)
  have r1: "renderCell ex_row (ex_col ''c'' (Some (AccKey [])) None) 0 0 = (Inr JNull, 0)"
    using falsy_key_is_no_accessor [OF h1 h2, of ex_row 0 0] c1 by blast
  have "renderCell ex_row (ex_col ''c'' (Some (AccKey [])) (Some ex_span)) 0 0
          = ex_span \<lparr>cp_value = JNull, cp_row = ex_row, cp_index = 0\<rparr> 0"
    using falsy_key_is_no_accessor [OF h1' h2, of ex_row 0 0] c2 by blast
  then have r2: "renderCell ex_row (ex_col ''c'' (Some (AccKey [])) (Some ex_span)) 0 0
          = (Inr (JElem ''span'' JNull [] [JNull]), 0)"
    by (simp add: ex_span_def ret_apply)
  from h1 h2 v r1 r2 show ?thesis by simp
qed

text \<open>
  What returns normally when the caller's functions do: a cell, a data row, the body.
\<close>

lemma returns_renderCell:
  assumes "column_returns row column"
  shows "returns (renderCell row column index)"
  using assms
  by (auto simp: renderCell_def getCellValue_def column_returns_def
           intro!: returns_bindE returns_ret split: option.splits accessor.splits)

lemma returns_dataRow:
  assumes "\<forall>column \<in> set (columns props). column_returns row column"
    and "\<forall>g i. getRowKey props = Some g \<longrightarrow> returns (g row i)"
  shows "returns (dataRow tw props row index)"
  using assms unfolding dataRow_def rowKey_def array_map_def dataCell_def
  by (auto intro!: returns_bindE returns_ret returns_map_from returns_renderCell
           split: option.splits)

lemma returns_tableBody:
  assumes "callbacks_return props"
  shows "returns (tableBody tw props)"
  using assms unfolding tableBody_def array_map_def
  by (auto simp: callbacks_return_def
           intro!: returns_bindE returns_ret returns_map_from returns_dataRow)




section \<open>The three states of the table body\<close>

text \<open>The header does not depend on the data.\<close>

lemma headerCell_data: "headerCell tw (props\<lparr>data := d\<rparr>) = headerCell tw props"
  by (simp add: headerCell_def fun_eq_iff)

text \<open>
  Claim C3: for every list of columns and every data array, when \<^verbatim>\<open>loading\<close> is true
  the table body is exactly 5 placeholder rows (keys 0 to 4), each with exactly one
  placeholder cell per column; the body is produced without calling any caller-supplied
  function, and the whole rendered output is the same for any two values of
  \<^verbatim>\<open>data\<close>.
\<close>

theorem loading_renders_five_skeleton_rows:
  assumes "loading props"
  shows "\<exists>rows.
           tableBody tw props w = (Inr (JArr rows), w) \<and>
           length rows = 5 \<and>
           (\<forall>i<5. \<exists>cells.
              rows ! i = JElem ''tr'' (JNum (int i)) [] [JArr cells] \<and>
              length cells = length (columns props) \<and>
              (\<forall>j<length (columns props).
                 cells ! j = JElem ''td'' (JNum (int j)) [ClassName ''p-4'']
                    [JElem ''div'' JNull
                       [ClassName ''h-4 bg-neutral-200 rounded animate-pulse''] []])) \<and>
           DataTable tw (props\<lparr>data := d1\<rparr>) w = DataTable tw (props\<lparr>data := d2\<rparr>) w"
proof -
  let ?rows = "map (\<lambda>i. keyed (JNum (int i)) (SkeletonRow (length (columns props)) :: 'a jsval))
                 [0..<5]"
  have body: "tableBody tw props w = (Inr (JArr ?rows), w)" for tw and d and w :: 'a
    using assms by (simp add: tableBody_def ret_apply)
  have body': "tableBody tw (props\<lparr>data := d\<rparr>) = tableBody tw props" for d
    using assms by (simp add: tableBody_def)
  have "\<forall>i<5. \<exists>cells.
              ?rows ! i = JElem ''tr'' (JNum (int i)) [] [JArr cells] \<and>
              length cells = length (columns props) \<and>
              (\<forall>j<length (columns props).
                 cells ! j = JElem ''td'' (JNum (int j)) [ClassName ''p-4'']
                    [JElem ''div'' JNull
                       [ClassName ''h-4 bg-neutral-200 rounded animate-pulse''] []])"
    by (simp add: SkeletonRow_def)
  moreover have "DataTable tw (props\<lparr>data := d1\<rparr>) w = DataTable tw (props\<lparr>data := d2\<rparr>) w"
    by (simp add: DataTable_def body' tableHead_def headerCell_data)
  ultimately show ?thesis using body by (intro exI [of _ ?rows]) simp
qed

theorem loading_renders_five_skeleton_rows_witness:
  "loading (ex_props\<lparr>loading := True\<rparr>) \<and>
   (\<exists>rows. tableBody id (ex_props\<lparr>loading := True\<rparr>) 0 = (Inr (JArr rows), 0) \<and>
      length rows = 5 \<and>
      (\<exists>cells. rows ! 4 = JElem ''tr'' (JNum 4) [] [JArr cells] \<and> length cells = 2)) \<and>
   DataTable id (ex_props\<lparr>loading := True, data := []\<rparr>) 0
     = DataTable id (ex_props\<lparr>loading := True, data := [ex_row]\<rparr>) 0"
proof -
  have h: "loading (ex_props\<lparr>loading := True\<rparr>)" by simp
  have n: "length (columns (ex_props\<lparr>loading := True\<rparr>)) = 2"
    by (simp add: ex_props_def)
  from loading_renders_five_skeleton_rows [OF h, of id 0 "[]" "[ex_row]"]
  obtain rows where
    r: "tableBody id (ex_props\<lparr>loading := True\<rparr>) 0 = (Inr (JArr rows), 0)"
       "length rows = 5"
       "\<forall>i<5. \<exists>cells.
              rows ! i = JElem ''tr'' (JNum (int i)) [] [JArr cells] \<and>
              length cells = length (columns (ex_props\<lparr>loading := True\<rparr>)) \<and>
              (\<forall>j<length (columns (ex_props\<lparr>loading := True\<rparr>)).
                 cells ! j = JElem ''td'' (JNum (int j)) [ClassName ''p-4'']
                    [JElem ''div'' JNull
                       [ClassName ''h-4 bg-neutral-200 rounded animate-pulse''] []])"
       "DataTable id (ex_props\<lparr>loading := True, data := []\<rparr>) 0
          = DataTable id (ex_props\<lparr>loading := True, data := [ex_row]\<rparr>) 0"
    by blast
  from r(3) have "\<exists>cells. rows ! 4 = JElem ''tr'' (JNum (int 4)) [] [JArr cells] \<and>
      length cells = length (columns (ex_props\<lparr>loading := True\<rparr>))"
    by (elim allE [of _ 4]) auto
  with n have "\<exists>cells. rows ! 4 = JElem ''tr'' (JNum 4) [] [JArr cells] \<and> length cells = 2"
    by simp
  with r(1,2,4) h show ?thesis by blast
qed

text \<open>
  Claim C4: when \<^verbatim>\<open>loading\<close> is false and \<^verbatim>\<open>data\<close> is the empty array, the table
  body is exactly one row whose single cell has \<^verbatim>\<open>colSpan\<close> equal to the number of
  columns; the cell shows the literal default message \<^verbatim>\<open>No data available\<close> when no
  \<^verbatim>\<open>emptyState\<close> is supplied, and the caller's \<^verbatim>\<open>emptyState\<close> when that is an
  element (or any other truthy content).
\<close>

theorem empty_state_row:
  assumes "\<not> loading props" and "data props = []"
  shows "(emptyState props = JUndefined \<longrightarrow>
            tableBody tw props w =
              (Inr (JElem ''tr'' JNull []
                     [JElem ''td'' JNull
                        [ColSpan (length (columns props)), ClassName ''h-24 text-center'']
                        [JElem ''div'' JNull [ClassName ''py-12 text-neutral-500'']
                           [JStr ''No data available'']]]), w)) \<and>
         (\<forall>t k as cs. emptyState props = JElem t k as cs \<longrightarrow>
            tableBody tw props w =
              (Inr (JElem ''tr'' JNull []
                     [JElem ''td'' JNull
                        [ColSpan (length (columns props)), ClassName ''h-24 text-center'']
                        [JElem t k as cs]]), w)) \<and>
         (truthy (emptyState props) \<longrightarrow>
            tableBody tw props w =
              (Inr (JElem ''tr'' JNull []
                     [JElem ''td'' JNull
                        [ColSpan (length (columns props)), ClassName ''h-24 text-center'']
                        [emptyState props]]), w))"
  using assms
  by (simp add: tableBody_def isEmpty_def emptyRow_def js_or_def defaultEmpty_def ret_apply)

theorem empty_state_row_witness:
  "\<not> loading (ex_props\<lparr>data := []\<rparr>) \<and> data (ex_props\<lparr>data := []\<rparr>) = [] \<and>
   emptyState (ex_props\<lparr>data := []\<rparr>) = JUndefined \<and>
   tableBody id (ex_props\<lparr>data := []\<rparr>) 0 =
     (Inr (JElem ''tr'' JNull []
            [JElem ''td'' JNull [ColSpan 2, ClassName ''h-24 text-center'']
               [JElem ''div'' JNull [ClassName ''py-12 text-neutral-500'']
                  [JStr ''No data available'']]]), 0) \<and>
   truthy (emptyState (ex_props\<lparr>data := [], emptyState := JElem ''p'' JNull [] [JStr ''Nothing'']\<rparr>)) \<and>
   tableBody id (ex_props\<lparr>data := [], emptyState := JElem ''p'' JNull [] [JStr ''Nothing'']\<rparr>) 0 =
     (Inr (JElem ''tr'' JNull []
            [JElem ''td'' JNull [ColSpan 2, ClassName ''h-24 text-center'']
               [JElem ''p'' JNull [] [JStr ''Nothing'']]]), 0)"
proof -
  let ?P = "ex_props\<lparr>data := []\<rparr>"
  let ?Q = "ex_props\<lparr>data := [], emptyState := JElem ''p'' JNull [] [JStr ''Nothing'']\<rparr>"
  have p: "\<not> loading ?P" "data ?P = []" "emptyState ?P = JUndefined" "length (columns ?P) = 2"
    by (simp_all add: ex_props_def)
  have q: "\<not> loading ?Q" "data ?Q = []"
    "emptyState ?Q = JElem ''p'' JNull [] [JStr ''Nothing'']" "length (columns ?Q) = 2"
    by (simp_all add: ex_props_def)
  from empty_state_row [OF p(1,2), of id 0] p(3,4)
  have a: "tableBody id ?P 0 =
     (Inr (JElem ''tr'' JNull []
            [JElem ''td'' JNull [ColSpan 2, ClassName ''h-24 text-center'']
               [JElem ''div'' JNull [ClassName ''py-12 text-neutral-500'']
                  [JStr ''No data available'']]]), 0)"
    by simp
  from empty_state_row [OF q(1,2), of id 0] q(3,4)
  have b: "tableBody id ?Q 0 =
     (Inr (JElem ''tr'' JNull []
            [JElem ''td'' JNull [ColSpan 2, ClassName ''h-24 text-center'']
               [JElem ''p'' JNull [] [JStr ''Nothing'']]]), 0)"
    by simp
  from p q a b show ?thesis by simp
qed

text \<open>
  Claim C10: in the empty state, a caller-supplied \<^verbatim>\<open>emptyState\<close> that is falsy (the
  empty string, 0, \<^verbatim>\<open>false\<close>, \<^verbatim>\<open>null\<close>) is not shown: \<^verbatim>\<open>||\<close> picks the default
  \<^verbatim>\<open>No data available\<close> message in its place.
\<close>

theorem falsy_emptyState_shows_default:
  assumes "\<not> loading props" and "data props = []" and "\<not> truthy (emptyState props)"
  shows "tableBody tw props w =
           (Inr (JElem ''tr'' JNull []
                  [JElem ''td'' JNull
                     [ColSpan (length (columns props)), ClassName ''h-24 text-center'']
                     [JElem ''div'' JNull [ClassName ''py-12 text-neutral-500'']
                        [JStr ''No data available'']]]), w) \<and>
         js_or (emptyState props) defaultEmpty = defaultEmpty"
  using assms
  by (simp add: tableBody_def isEmpty_def emptyRow_def js_or_def defaultEmpty_def ret_apply)

theorem falsy_emptyState_shows_default_witness:
  "\<not> truthy (JStr [] :: nat jsval) \<and> \<not> truthy (JNum 0 :: nat jsval) \<and>
   \<not> truthy (JBool False :: nat jsval) \<and> \<not> truthy (JNull :: nat jsval) \<and>
   \<not> loading (ex_props\<lparr>data := [], emptyState := JNum 0\<rparr>) \<and>
   data (ex_props\<lparr>data := [], emptyState := JNum 0\<rparr>) = [] \<and>
   tableBody id (ex_props\<lparr>data := [], emptyState := JNum 0\<rparr>) 0 =
     (Inr (JElem ''tr'' JNull []
            [JElem ''td'' JNull [ColSpan 2, ClassName ''h-24 text-center'']
               [JElem ''div'' JNull [ClassName ''py-12 text-neutral-500'']
                  [JStr ''No data available'']]]), 0) \<and>
   tableBody id (ex_props\<lparr>data := [], emptyState := JStr []\<rparr>) 0 =
     (Inr (JElem ''tr'' JNull []
            [JElem ''td'' JNull [ColSpan 2, ClassName ''h-24 text-center'']
               [JElem ''div'' JNull [ClassName ''py-12 text-neutral-500'']
                  [JStr ''No data available'']]]), 0)"
proof -
  let ?P = "ex_props\<lparr>data := [], emptyState := JNum 0\<rparr>"
  let ?Q = "ex_props\<lparr>data := [], emptyState := JStr []\<rparr>"
  have p: "\<not> loading ?P" "data ?P = []" "\<not> truthy (emptyState ?P)" "length (columns ?P) = 2"
    by (simp_all add: ex_props_def)
  have q: "\<not> loading ?Q" "data ?Q = []" "\<not> truthy (emptyState ?Q)" "length (columns ?Q) = 2"
    by (simp_all add: ex_props_def)
  from falsy_emptyState_shows_default [OF p(1,2,3), of id 0] p(4)
  have a: "tableBody id ?P 0 =
     (Inr (JElem ''tr'' JNull []
            [JElem ''td'' JNull [ColSpan 2, ClassName ''h-24 text-center'']
               [JElem ''div'' JNull [ClassName ''py-12 text-neutral-500'']
                  [JStr ''No data available'']]]), 0)"
    by simp
  from falsy_emptyState_shows_default [OF q(1,2,3), of id 0] q(4)
  have b: "tableBody id ?Q 0 =
     (Inr (JElem ''tr'' JNull []
            [JElem ''td'' JNull [ColSpan 2, ClassName ''h-24 text-center'']
               [JElem ''div'' JNull [ClassName ''py-12 text-neutral-500'']
                  [JStr ''No data available'']]]), 0)"
    by simp
  from p a b show ?thesis by simp
qed

text \<open>The shape of a data row that was rendered, and where its key comes from.\<close>

lemma dataRow_shape:
  assumes "dataRow tw props row index w = (Inr r, w')"
  shows "\<exists>k wk attrs cells. r = JElem ''tr'' k attrs [JArr cells] \<and>
           length cells = length (columns props) \<and>
           (case getRowKey props of
              Some g \<Rightarrow> g row index w = (Inr k, wk)
            | None \<Rightarrow> k = JNum (int index))"
proof -
  from assms obtain k wk cells where
    k: "rowKey props row index w = (Inr k, wk)" and
    cs: "map_from (\<lambda>column i. dataCell tw props row index column) 0 (columns props) wk
           = (Inr cells, w')" and
    r: "r = JElem ''tr'' k
              [ClassName (cn tw
                 [Some ''border-b transition-colors'',
                  and_class (striped props \<and> index mod 2 = 1) ''bg-neutral-50'',
                  and_class (hoverable props) ''hover:bg-neutral-50'',
                  and_class (onRowClick props \<noteq> None) ''cursor-pointer'']),
               OnClick (rowClick props row index)]
              [JArr cells]"
    unfolding dataRow_def array_map_def by (auto simp: bindE_Inr ret_eq)
  from map_from_chain [OF cs] have "length cells = length (columns props)" by blast
  moreover from k have "case getRowKey props of
              Some g \<Rightarrow> g row index w = (Inr k, wk)
            | None \<Rightarrow> k = JNum (int index)"
    by (auto simp: rowKey_def ret_eq split: option.splits)
  ultimately show ?thesis using r by blast
qed

text \<open>
  Claim C5: when \<^verbatim>\<open>loading\<close> is false and \<^verbatim>\<open>data\<close> has \<open>N \<ge> 1\<close> elements, the
  table body is exactly \<open>N\<close> data rows, the row at index \<open>i\<close> being the rendering of
  \<^verbatim>\<open>data[i]\<close> with index \<open>i\<close>, rendered in the order of the array (each row starts in
  the state the previous one left); its key is what \<^verbatim>\<open>getRowKey(data[i], i)\<close>
  returned when a \<^verbatim>\<open>getRowKey\<close> function is supplied, and the index \<open>i\<close> otherwise.
  The body is produced whenever the caller's functions that rendering calls on the rows
  return normally.
\<close>

theorem populated_rows_in_order:
  assumes "\<not> loading props" and "data props \<noteq> []"
  shows "(callbacks_return props \<longrightarrow> (\<exists>body w'. tableBody tw props w = (Inr body, w'))) \<and>
         (\<forall>body w'. tableBody tw props w = (Inr body, w') \<longrightarrow>
            (\<exists>rows ws. body = JArr rows \<and> length rows = length (data props) \<and>
               length ws = Suc (length (data props)) \<and> ws ! 0 = w \<and>
               ws ! length (data props) = w' \<and>
               (\<forall>i<length (data props).
                  dataRow tw props (data props ! i) i (ws ! i) = (Inr (rows ! i), ws ! Suc i) \<and>
                  (\<exists>k wk attrs cells. rows ! i = JElem ''tr'' k attrs [JArr cells] \<and>
                     (case getRowKey props of
                        Some g \<Rightarrow> g (data props ! i) i (ws ! i) = (Inr k, wk)
                      | None \<Rightarrow> k = JNum (int i))))))"
proof (intro conjI impI allI)
  assume "callbacks_return props"
  then have "returns (tableBody tw props)" by (rule returns_tableBody)
  then show "\<exists>body w'. tableBody tw props w = (Inr body, w')"
    unfolding returns_def by blast
next
  fix body w'
  assume tb: "tableBody tw props w = (Inr body, w')"
  from assms have ne: "\<not> isEmpty props" by (simp add: isEmpty_def)
  from tb assms(1) ne obtain rows where
    rows: "map_from (dataRow tw props) 0 (data props) w = (Inr rows, w')" and
    body: "body = JArr rows"
    unfolding tableBody_def array_map_def by (auto simp: bindE_Inr ret_eq)
  from map_from_chain [OF rows] obtain ws where
    ws: "length ws = Suc (length (data props))" "ws ! 0 = w" "ws ! length (data props) = w'"
        "length rows = length (data props)"
        "\<forall>j<length (data props).
           dataRow tw props (data props ! j) (0 + j) (ws ! j) = (Inr (rows ! j), ws ! Suc j)"
    by blast
  have "\<forall>i<length (data props).
          dataRow tw props (data props ! i) i (ws ! i) = (Inr (rows ! i), ws ! Suc i) \<and>
          (\<exists>k wk attrs cells. rows ! i = JElem ''tr'' k attrs [JArr cells] \<and>
             (case getRowKey props of
                Some g \<Rightarrow> g (data props ! i) i (ws ! i) = (Inr k, wk)
              | None \<Rightarrow> k = JNum (int i)))"
  proof (intro allI impI)
    fix i assume "i < length (data props)"
    with ws(5) have dr: "dataRow tw props (data props ! i) i (ws ! i) = (Inr (rows ! i), ws ! Suc i)"
      by simp
    from dataRow_shape [OF dr] dr
    show "dataRow tw props (data props ! i) i (ws ! i) = (Inr (rows ! i), ws ! Suc i) \<and>
          (\<exists>k wk attrs cells. rows ! i = JElem ''tr'' k attrs [JArr cells] \<and>
             (case getRowKey props of
                Some g \<Rightarrow> g (data props ! i) i (ws ! i) = (Inr k, wk)
              | None \<Rightarrow> k = JNum (int i)))" by blast
  qed
  with ws body
  show "\<exists>rows ws. body = JArr rows \<and> length rows = length (data props) \<and>
               length ws = Suc (length (data props)) \<and> ws ! 0 = w \<and>
               ws ! length (data props) = w' \<and>
               (\<forall>i<length (data props).
                  dataRow tw props (data props ! i) i (ws ! i) = (Inr (rows ! i), ws ! Suc i) \<and>
                  (\<exists>k wk attrs cells. rows ! i = JElem ''tr'' k attrs [JArr cells] \<and>
                     (case getRowKey props of
                        Some g \<Rightarrow> g (data props ! i) i (ws ! i) = (Inr k, wk)
                      | None \<Rightarrow> k = JNum (int i))))"
    by blast
qed

theorem populated_rows_in_order_witness:
  "\<not> loading (ex_props\<lparr>getRowKey := Some ex_name_key\<rparr>) \<and>
   data (ex_props\<lparr>getRowKey := Some ex_name_key\<rparr>) \<noteq> [] \<and>
   callbacks_return (ex_props\<lparr>getRowKey := Some ex_name_key\<rparr>) \<and>
   (\<exists>rows w'. tableBody id (ex_props\<lparr>getRowKey := Some ex_name_key\<rparr>) 0
                 = (Inr (JArr rows), w') \<and>
      length rows = 2 \<and>
      (\<exists>attrs cells. rows ! 0 = JElem ''tr'' (JStr ''Alice'') attrs [JArr cells]) \<and>
      (\<exists>attrs cells. rows ! 1 = JElem ''tr'' (JStr ''Bob'') attrs [JArr cells]))"
proof -
  let ?P = "ex_props\<lparr>getRowKey := Some ex_name_key\<rparr>"
  have h1: "\<not> loading ?P" by (simp add: ex_props_def)
  have h2: "data ?P \<noteq> []" by (simp add: ex_props_def)
  have h3: "callbacks_return ?P"
    by (simp add: callbacks_return_def column_returns_def ex_props_def ex_col_def
        ex_span_def ex_name_key_def ex_row_fields returns_ret)
  have d: "data ?P = [ex_row, ex_row2]" "getRowKey ?P = Some ex_name_key"
    by (simp_all add: ex_props_def)
  note t = populated_rows_in_order [OF h1 h2, of id 0]
  from t h3 obtain body w' where b: "tableBody id ?P 0 = (Inr body, w')"
    by blast
  from t b obtain rows ws where
    r: "body = JArr rows" "length rows = length (data ?P)" and
    a: "\<forall>i<length (data ?P).
          dataRow id ?P (data ?P ! i) i (ws ! i) = (Inr (rows ! i), ws ! Suc i) \<and>
          (\<exists>k wk attrs cells. rows ! i = JElem ''tr'' k attrs [JArr cells] \<and>
             (case getRowKey ?P of
                Some g \<Rightarrow> g (data ?P ! i) i (ws ! i) = (Inr k, wk)
              | None \<Rightarrow> k = JNum (int i)))"
    by blast
  from a have "\<exists>k wk attrs cells. rows ! 0 = JElem ''tr'' k attrs [JArr cells] \<and>
      ex_name_key ex_row 0 (ws ! 0) = (Inr k, wk)"
    by (elim allE [of _ 0]) (simp add: d)
  then have r0: "\<exists>attrs cells. rows ! 0 = JElem ''tr'' (JStr ''Alice'') attrs [JArr cells]"
    by (auto simp: ex_name_key_def ret_apply ex_row_fields)
  from a have "\<exists>k wk attrs cells. rows ! 1 = JElem ''tr'' k attrs [JArr cells] \<and>
      ex_name_key ex_row2 1 (ws ! 1) = (Inr k, wk)"
    by (elim allE [of _ 1]) (simp add: d)
  then have r1: "\<exists>attrs cells. rows ! 1 = JElem ''tr'' (JStr ''Bob'') attrs [JArr cells]"
    by (auto simp: ex_name_key_def ret_apply ex_row_fields)
  from r(2) have "length rows = 2" by (simp add: d)
  with b r(1) r0 r1 h1 h2 h3 show ?thesis by blast
qed

section \<open>Determinism\<close>

text \<open>With pure caller-supplied functions, a cell, a data row and the table are pure.\<close>

lemma pure_renderCell:
  assumes "column_pure row column"
  shows "pure_eff (renderCell row column index)"
  using assms
  by (auto simp: renderCell_def getCellValue_def column_pure_def
           intro!: pure_bindE pure_ret split: option.splits accessor.splits)

lemma pure_dataRow:
  assumes "\<forall>column \<in> set (columns props). column_pure row column"
    and "\<forall>g i. getRowKey props = Some g \<longrightarrow> pure_eff (g row i)"
  shows "pure_eff (dataRow tw props row index)"
  using assms unfolding dataRow_def rowKey_def array_map_def dataCell_def
  by (auto intro!: pure_bindE pure_ret pure_map_from pure_renderCell
           split: option.splits)

lemma pure_DataTable:
  assumes "callbacks_pure props"
  shows "pure_eff (DataTable tw props)"
  using assms unfolding DataTable_def tableBody_def array_map_def
  by (auto simp: callbacks_pure_def
           intro!: pure_bindE pure_ret pure_map_from pure_dataRow)

lemma ex_counter_key_apply: "ex_counter_key row i w = (Inr (JNum (int w)), Suc w)"
  by (simp add: ex_counter_key_def)

lemma ex_key_body:
  "tableBody tw ex_key_props w =
     (Inr (JArr [JElem ''tr'' (JNum (int w))
              [ClassName (cn tw
                 [Some ''border-b transition-colors'',
                  and_class (striped ex_key_props \<and> (0::nat) mod 2 = 1) ''bg-neutral-50'',
                  and_class (hoverable ex_key_props) ''hover:bg-neutral-50'',
                  and_class (onRowClick ex_key_props \<noteq> None) ''cursor-pointer'']),
               OnClick (rowClick ex_key_props ex_row 0)]
              [JArr [JElem ''td'' (JStr ''name'')
                 [ClassName (cn tw
                   [Some ''p-4 align-middle'',
                    and_class False ''text-center'',
                    and_class False ''text-right'',
                    and_class False ''border-r last:border-r-0''])]
                 [JStr ''Alice'']]]]), Suc w)"
  by (simp add: tableBody_def isEmpty_def array_map_def dataRow_def rowKey_def dataCell_def
      renderCell_def getCellValue_def bindE_apply ret_apply ex_counter_key_apply
      ex_key_props_def ex_col_def ex_row_fields)

text \<open>
  Claim C8, as stated, at props whose accessor is a field key read on a row of plain
  data fields, that have no cell renderer (so every accessor and cell function is pure)
  and whose \<^verbatim>\<open>getRowKey\<close> counts its calls: the first rendering gives the row the key 0 and leaves the counter at 1, the
  second rendering with the identical props gives the row the key 1.
\<close>

theorem impure_getRowKey_counterexample:
  "column_pure ex_row (ex_col ''name'' (Some (AccKey ''name'')) None) \<and>
   data ex_key_props = [ex_row] \<and>
   columns ex_key_props = [ex_col ''name'' (Some (AccKey ''name'')) None] \<and>
   snd (DataTable id ex_key_props 0) = 1 \<and>
   fst (DataTable id ex_key_props 0) \<noteq> fst (DataTable id ex_key_props 1)"
proof -
  have "column_pure ex_row (ex_col ''name'' (Some (AccKey ''name'')) None)"
    by (simp add: column_pure_def ex_col_def ex_row_fields pure_ret)
  moreover have "data ex_key_props = [ex_row]"
    by (simp add: ex_key_props_def)
  moreover have "columns ex_key_props = [ex_col ''name'' (Some (AccKey ''name'')) None]"
    by (simp add: ex_key_props_def)
  moreover have "snd (DataTable id ex_key_props 0) = 1"
    by (simp add: DataTable_def bindE_apply ret_apply ex_key_body)
  moreover have "fst (DataTable id ex_key_props 0) \<noteq> fst (DataTable id ex_key_props 1)"
    by (simp add: DataTable_def bindE_apply ret_apply ex_key_body)
  ultimately show ?thesis by blast
qed

text \<open>
  Claim C8, amended: assuming that the caller-supplied functions called while rendering
  (accessor, \<^verbatim>\<open>cell\<close> and \<^verbatim>\<open>getRowKey\<close>, and a getter of a row behind a key
  that is read) are pure on the rows of the data, the component is a
  deterministic pure function of its props: rendering with identical props yields the
  identical output whatever the state of the world, and changes nothing; and, assuming a
  column's accessor and \<^verbatim>\<open>cell\<close> functions (and the getter behind its key) are pure
  on a row, resolving that row with that column always produces the same output.
\<close>

theorem render_deterministic_for_pure_callbacks:
  "(callbacks_pure props \<longrightarrow>
      fst (DataTable tw props w1) = fst (DataTable tw props w2) \<and>
      snd (DataTable tw props w1) = w1) \<and>
   (column_pure row column \<longrightarrow>
      fst (renderCell row column index w1) = fst (renderCell row column index w2) \<and>
      snd (renderCell row column index w1) = w1)"
proof (intro conjI impI)
  assume "callbacks_pure props"
  then have p: "pure_eff (DataTable tw props)" by (rule pure_DataTable)
  show "fst (DataTable tw props w1) = fst (DataTable tw props w2)"
    using p by (rule pure_effD(1))
  show "snd (DataTable tw props w1) = w1"
    using p by (rule pure_effD(2))
next
  assume "column_pure row column"
  then have p: "pure_eff (renderCell row column index)" by (rule pure_renderCell)
  show "fst (renderCell row column index w1) = fst (renderCell row column index w2)"
    using p by (rule pure_effD(1))
  show "snd (renderCell row column index w1) = w1"
    using p by (rule pure_effD(2))
qed

theorem render_deterministic_for_pure_callbacks_witness:
  "callbacks_pure (ex_props\<lparr>getRowKey := Some ex_name_key\<rparr>) \<and>
   fst (DataTable id (ex_props\<lparr>getRowKey := Some ex_name_key\<rparr>) 0)
     = fst (DataTable id (ex_props\<lparr>getRowKey := Some ex_name_key\<rparr>) 7) \<and>
   snd (DataTable id (ex_props\<lparr>getRowKey := Some ex_name_key\<rparr>) 0) = 0 \<and>
   column_pure ex_row (ex_col ''status'' (Some (AccKey ''status'')) (Some ex_span)) \<and>
   fst (renderCell ex_row (ex_col ''status'' (Some (AccKey ''status'')) (Some ex_span)) 0 0)
     = fst (renderCell ex_row (ex_col ''status'' (Some (AccKey ''status'')) (Some ex_span)) 0 7)"
proof -
  let ?P = "ex_props\<lparr>getRowKey := Some ex_name_key\<rparr>"
  let ?c = "ex_col ''status'' (Some (AccKey ''status'')) (Some ex_span)"
  have sp: "pure_eff (ex_span p)" for p
    by (simp add: ex_span_def pure_ret)
  have h2: "column_pure ex_row ?c"
    by (simp add: column_pure_def ex_col_def sp ex_row_fields pure_ret)
  have h1: "callbacks_pure ?P"
    by (simp add: callbacks_pure_def column_pure_def ex_props_def ex_col_def sp
        ex_name_key_def ex_row_fields pure_ret)
  from render_deterministic_for_pure_callbacks [of ?P id 0 7 ex_row ?c 0] h1 h2
  show ?thesis by blast
qed

end
